theory Spec2Isabelle
  imports Complex_Main
begin

section \<open>Strings\<close>

text \<open>
  Go strings are byte sequences. The program handles them in two ways, and the model
  keeps the two apart.

  \<^item> Response bodies and header values are only measured, cut and handed on
    (\<open>len\<close>, \<open>s[:n]\<close>, \<open>json.Unmarshal\<close>, logging): they are byte strings, \<open>string\<close>.
  \<^item> Credentials and activity names are inspected by \<open>strings.TrimSpace\<close> and
    \<open>strings.EqualFold\<close>, which read a string rune by rune. They are modelled by the
    sequence of runes (Unicode code points) that decoding the string yields: \<open>ustring\<close>.
\<close>

type_synonym rune = nat
type_synonym ustring = "rune list"

text \<open>A string literal of the source, all of whose bytes are ASCII, as runes.\<close>

definition runes :: "string \<Rightarrow> ustring" where
  "runes s = map of_char s"

text \<open>
  \<open>unicode.IsSpace\<close>: Unicode's White_Space property. In Latin-1 these are
  \<open>\t \n \v \f \r\<close>, space, U+0085 and U+00A0; beyond it U+1680, U+2000..U+200A,
  U+2028, U+2029, U+202F, U+205F and U+3000.
\<close>

definition IsSpace :: "rune \<Rightarrow> bool" where
  "IsSpace r =
     ((9 \<le> r \<and> r \<le> 13) \<or> r = 32 \<or> r = 133 \<or> r = 160 \<or> r = 5760
      \<or> (8192 \<le> r \<and> r \<le> 8202) \<or> r = 8232 \<or> r = 8233 \<or> r = 8239
      \<or> r = 8287 \<or> r = 12288)"

text \<open>\<open>strings.TrimSpace\<close>: all leading and trailing white space removed.\<close>

definition TrimSpace :: "ustring \<Rightarrow> ustring" where
  "TrimSpace s = rev (dropWhile IsSpace (rev (dropWhile IsSpace s)))"

text \<open>
  \<open>strings.EqualFold\<close> walks both strings rune by rune. Two runes agree when they are
  equal; otherwise, with \<open>sr < tr\<close> after a swap, when \<open>tr\<close> is ASCII they agree iff
  \<open>sr\<close> is an upper-case ASCII letter and \<open>tr\<close> its lower-case form; when \<open>tr\<close> is not
  ASCII the answer comes from the orbits of \<open>unicode.SimpleFold\<close>, a table of the
  Unicode database that is not part of this repository. That table is the parameter
  \<open>orbit\<close>: \<open>orbit sr tr\<close> says that iterating \<open>SimpleFold\<close> from \<open>sr\<close> reaches \<open>tr\<close>.
\<close>

definition RuneSelf :: rune where
  "RuneSelf = 128"

definition equalFoldRune :: "(rune \<Rightarrow> rune \<Rightarrow> bool) \<Rightarrow> rune \<Rightarrow> rune \<Rightarrow> bool" where
  "equalFoldRune orbit sr0 tr0 =
     (if tr0 = sr0 then True
      else
        let sr = min sr0 tr0; tr = max sr0 tr0 in
        if tr < RuneSelf then 65 \<le> sr \<and> sr \<le> 90 \<and> tr = sr + 97 - 65
        else orbit sr tr)"

fun EqualFold :: "(rune \<Rightarrow> rune \<Rightarrow> bool) \<Rightarrow> ustring \<Rightarrow> ustring \<Rightarrow> bool" where
  "EqualFold orbit [] [] = True"
| "EqualFold orbit [] (tr # t) = False"
| "EqualFold orbit (sr # s) [] = False"
| "EqualFold orbit (sr # s) (tr # t) = (equalFoldRune orbit sr tr \<and> EqualFold orbit s t)"

section \<open>Constants and data\<close>

definition perPage :: int where
  "perPage = 200"

definition maxRetries :: int where
  "maxRetries = 3"

text \<open>\<open>time.Second\<close> in nanoseconds, the unit of \<open>time.Duration\<close> (an \<open>int64\<close>).\<close>

definition Second :: int where
  "Second = 1000000000"

definition StatusOK :: int where
  "StatusOK = 200"

definition StatusUnauthorized :: int where
  "StatusUnauthorized = 401"

definition StatusTooManyRequests :: int where
  "StatusTooManyRequests = 429"

record authResponse =
  AccessToken :: ustring
  ExpiresIn :: int
  TokenType :: ustring
  RefreshToken :: ustring

text \<open>
  \<open>Distance\<close> is a \<open>float64\<close>. The type of floating-point values is the parameter \<open>'f\<close>;
  the two operations the program applies to it are parameters as well (see \<open>stdlib\<close>).
\<close>

record 'f activity =
  ID :: int
  Name :: ustring
  Distance :: 'f

record envVars =
  StravaClientId :: ustring
  StravaClientSecret :: ustring
  StravaRefreshToken :: ustring
  StravaAccessToken :: ustring

record rateLimitUsage =
  Usage :: string
  Limit :: string

section \<open>Errors\<close>

text \<open>
  Every error value the program builds or passes on. \<open>LibError\<close> is an error that the
  libraries hand to the program (\<open>net/http\<close>, \<open>io\<close>, \<open>encoding/json\<close>), with its message.
  The others are built by the program: \<open>errors.New("missing STRAVA_CLIENT_ID/...")\<close>,
  \<open>"refresh req: %w"\<close>, \<open>"refresh failed status=%d body=%s"\<close>, \<open>"unmarshal refresh: %w"\<close>,
  \<open>"probe /athlete request: %w"\<close> and \<open>"probe /athlete status=%d body=%s"\<close>.
\<close>

datatype error =
    LibError string
  | MissingCredentials
  | RefreshReq error
  | RefreshFailed int string
  | UnmarshalRefresh error
  | ProbeRequest error
  | ProbeStatus int string

section \<open>The environment\<close>

text \<open>
  The requests the program sends. The URLs are constants of the source, so a request
  is known by its endpoint and by the values the program puts in it.
  \<^item> \<open>GetActivities per_page page token\<close>: \<open>fetchActivitiesPage\<close>'s GET of
    \<open>activitiesURL\<close> with the query \<open>per_page\<close>, \<open>page\<close> and the bearer token.
  \<^item> \<open>GetActivitiesProbe token\<close>: \<open>ensureAccessToken\<close>'s GET of
    \<open>activitiesURL?per_page=1&page=1\<close>.
  \<^item> \<open>GetAthlete token\<close>: \<open>probeToken\<close>'s GET of \<open>/api/v3/athlete\<close>.
  \<^item> \<open>PostToken client_id client_secret grant_type refresh_token\<close>:
    \<open>refreshAccessToken\<close>'s POST of the form to \<open>authURL\<close>.
\<close>

datatype request =
    GetActivities int int ustring
  | GetActivitiesProbe ustring
  | GetAthlete ustring
  | PostToken ustring ustring ustring ustring

text \<open>
  What \<open>client.Do\<close> followed by \<open>io.ReadAll(res.Body)\<close> gives for a response: the
  status, the three headers the program reads, the bytes read and the read error.
\<close>

record response =
  StatusCode :: int
  XRateLimitUsage :: string
  XRateLimitLimit :: string
  WWWAuthenticate :: string
  Body :: string
  ReadErr :: "error option"

text \<open>The log lines of the program, one constructor for each call of the logger.\<close>

datatype 'f logmsg =
    LogEnsureFailed error
  | LogProbeWarning error
  | LogAuthenticated
  | LogPage int int rateLimitUsage
  | LogUnauthorizedOnPage int
  | LogRefreshAfter401Failed error
  | LogRetryPage int int rateLimitUsage
  | LogAfterRefreshFailed int
  | LogBackingOff60
  | LogUnexpectedStatusCode int
  | LogPageRetrieved int nat
  | LogTotalFetched nat
  | LogDeskCount int
  | LogTotalDistance 'f
  | LogNoticeNewRefreshToken
  | LogNoticeUpdateSecrets
  | LogNoAccessToken
  | LogProbeFailed error
  | LogTokenRejected
  | LogTokenRefreshed int
  | LogRequestError int error
  | LogReadBody int error
  | LogUnmarshalActivities error
  | LogRateLimitedRetry int int
  | LogUnauthorized string string
  | LogUnexpectedStatus int string

text \<open>
  What the program does to the outside, in order: a request sent, a sleep (in
  nanoseconds), a line logged.
\<close>

datatype 'f event =
    Do request
  | Sleep int
  | Log "'f logmsg"

text \<open>
  The world is the list of answers the network will give to the coming calls of
  \<open>client.Do\<close> (\<open>Inl\<close> a transport error), and the events so far. The program is
  sequential, so the n-th call gets the n-th answer. When the list is empty the call
  does not return: every function below that may call \<open>client.Do\<close> returns \<open>None\<close>
  in that case, and \<open>Some\<close> of its Go result and the new world otherwise. The list
  is what the loops descend on. A run that never ends (rate-limited for ever at the
  top level) needs an endless list of answers; on each finite beginning of it the
  model gives \<open>None\<close>. A result \<open>Some\<close> therefore says that the program returns, and
  after how many answers.
\<close>

record 'f world =
  script :: "(error + response) list"
  trace :: "'f event list"

definition client_Do :: "request \<Rightarrow> 'f world \<Rightarrow> ((error + response) \<times> 'f world) option" where
  "client_Do req w =
     (case script w of
        [] \<Rightarrow> None
      | r # rs \<Rightarrow> Some (r, w\<lparr>script := rs, trace := trace w @ [Do req]\<rparr>))"

definition logf :: "'f logmsg \<Rightarrow> 'f world \<Rightarrow> 'f world" where
  "logf m w = w\<lparr>trace := trace w @ [Log m]\<rparr>"

definition time_Sleep :: "int \<Rightarrow> 'f world \<Rightarrow> 'f world" where
  "time_Sleep d w = w\<lparr>trace := trace w @ [Sleep d]\<rparr>"

text \<open>
  The library functions and built-in operations whose code is not in the repository:
  the fold orbits of the Unicode tables, \<open>json.Unmarshal\<close> at the two types the program
  decodes, and \<open>float64\<close> arithmetic (the zero value, \<open>+\<close>, \<open>*\<close> and the constant
  \<open>0.000621371\<close> as a \<open>float64\<close>).
\<close>

record 'f stdlib =
  foldOrbit :: "rune \<Rightarrow> rune \<Rightarrow> bool"
  unmarshalActivities :: "string \<Rightarrow> error + 'f activity list"
  unmarshalAuth :: "string \<Rightarrow> error + authResponse"
  f64_zero :: 'f
  f64_add :: "'f \<Rightarrow> 'f \<Rightarrow> 'f"
  f64_mul :: "'f \<Rightarrow> 'f \<Rightarrow> 'f"
  f64_milesPerMeter :: 'f

text \<open>
  The variables of \<open>main\<close> that its loop reads and writes: \<open>accessToken\<close>,
  \<open>refreshToken\<close>, \<open>all\<close> and \<open>page\<close>.
\<close>

record 'f vars =
  m_accessToken :: ustring
  m_refreshToken :: ustring
  m_all :: "'f activity list"
  m_page :: int

text \<open>
  What \<open>main\<close> has computed when it returns: \<open>all\<close>, \<open>deskCount\<close>, \<open>totalMeters\<close>,
  \<open>miles\<close> and \<open>refreshToken\<close> at that point.
\<close>

record 'f summary =
  r_all :: "'f activity list"
  r_deskCount :: int
  r_totalMeters :: 'f
  r_miles :: 'f
  r_refreshToken :: ustring

text \<open>
  \<open>truncate\<close> works on bytes: \<open>len(s) <= n\<close> and \<open>s[:n]\<close>. The appended ellipsis
  U+2026 is the three bytes E2 80 A6. Both call sites pass a positive constant.
\<close>

definition ellipsis :: string where
  "ellipsis = [char_of (226::nat), char_of (128::nat), char_of (166::nat)]"

definition truncate :: "string \<Rightarrow> nat \<Rightarrow> string" where
  "truncate s n = (if length s \<le> n then s else take n s @ ellipsis)"

section \<open>Backoff\<close>

text \<open>
  \<open>time.Duration\<close> is an \<open>int64\<close>: shifts and products wrap around. \<open>int64\<close> reads an
  integer as the 64-bit two's complement value it is stored as.
\<close>

definition int64 :: "int \<Rightarrow> int" where
  "int64 x = signed_take_bit 63 x"

text \<open>
  \<open>1<<uint(attempt-1)\<close> is computed at type \<open>time.Duration\<close>; a shift count of 64 or
  more gives 0. After the guard \<open>attempt\<close> is at least 1, so \<open>uint(attempt-1)\<close> is
  \<open>attempt - 1\<close>.
\<close>

definition backoff :: "int \<Rightarrow> int" where
  "backoff attempt0 =
     (let attempt = (if attempt0 < 1 then 1 else attempt0);
          shifted = (if 64 \<le> attempt - 1 then 0 else int64 (2 ^ nat (attempt - 1)));
          d = int64 (shifted * Second)
      in if d > 30 * Second then 30 * Second else d)"

section \<open>Token manager\<close>

text \<open>
  \<open>refreshAccessToken\<close>. \<open>http.NewRequestWithContext\<close> cannot fail on the constant
  method and URL, so its error branch is left out. The read error of \<open>io.ReadAll\<close> is
  dropped by the source (\<open>body, _ :=\<close>).
\<close>

definition refreshAccessToken ::
  "'f stdlib \<Rightarrow> envVars \<Rightarrow> 'f world \<Rightarrow> ((error + ustring \<times> ustring) \<times> 'f world) option" where
  "refreshAccessToken lib cfg w =
     (if TrimSpace (StravaClientId cfg) = [] \<or>
         TrimSpace (StravaClientSecret cfg) = [] \<or>
         TrimSpace (StravaRefreshToken cfg) = []
      then Some (Inl MissingCredentials, w)
      else
        case client_Do (PostToken (StravaClientId cfg) (StravaClientSecret cfg)
                          (runes ''refresh_token'') (StravaRefreshToken cfg)) w of
          None \<Rightarrow> None
        | Some (Inl err, w1) \<Rightarrow> Some (Inl (RefreshReq err), w1)
        | Some (Inr res, w1) \<Rightarrow>
            if StatusCode res \<noteq> StatusOK
            then Some (Inl (RefreshFailed (StatusCode res) (Body res)), w1)
            else
              (case unmarshalAuth lib (Body res) of
                 Inl err \<Rightarrow> Some (Inl (UnmarshalRefresh err), w1)
               | Inr auth \<Rightarrow>
                   Some (Inr (AccessToken auth, RefreshToken auth),
                         logf (LogTokenRefreshed (ExpiresIn auth)) w1)))"

definition ensureAccessToken ::
  "'f stdlib \<Rightarrow> envVars \<Rightarrow> 'f world \<Rightarrow> ((error + ustring \<times> ustring) \<times> 'f world) option" where
  "ensureAccessToken lib cfg w =
     (if TrimSpace (StravaAccessToken cfg) = []
      then refreshAccessToken lib cfg (logf LogNoAccessToken w)
      else
        case client_Do (GetActivitiesProbe (StravaAccessToken cfg)) w of
          None \<Rightarrow> None
        | Some (Inl err, w1) \<Rightarrow> refreshAccessToken lib cfg (logf (LogProbeFailed err) w1)
        | Some (Inr res, w1) \<Rightarrow>
            if StatusCode res = StatusUnauthorized
            then refreshAccessToken lib cfg (logf LogTokenRejected w1)
            else Some (Inr (StravaAccessToken cfg, StravaRefreshToken cfg), w1))"

definition probeToken :: "ustring \<Rightarrow> 'f world \<Rightarrow> (error option \<times> 'f world) option" where
  "probeToken accessToken w =
     (case client_Do (GetAthlete accessToken) w of
        None \<Rightarrow> None
      | Some (Inl err, w1) \<Rightarrow> Some (Some (ProbeRequest err), w1)
      | Some (Inr res, w1) \<Rightarrow>
          if StatusCode res \<noteq> StatusOK
          then Some (Some (ProbeStatus (StatusCode res) (truncate (Body res) 200)), w1)
          else Some (None, w1))"

section \<open>Page fetcher\<close>

text \<open>
  The loop of \<open>fetchActivitiesPage\<close>, \<open>for attempt := 1; attempt <= maxRetries; attempt++\<close>,
  with its variables \<open>lastStatus\<close> and \<open>lastRL\<close>. A nil slice and an empty slice are both
  the empty list. As in \<open>refreshAccessToken\<close>, building the request cannot fail.
\<close>

function fetchAttempts ::
  "'f stdlib \<Rightarrow> ustring \<Rightarrow> int \<Rightarrow> int \<Rightarrow> int \<Rightarrow> rateLimitUsage \<Rightarrow> 'f world \<Rightarrow>
     (('f activity list \<times> int \<times> rateLimitUsage) \<times> 'f world) option" where
  "fetchAttempts lib accessToken page attempt lastStatus lastRL w =
     (if attempt \<le> maxRetries then
        (case client_Do (GetActivities perPage page accessToken) w of
           None \<Rightarrow> None
         | Some (Inl err, w1) \<Rightarrow>
             fetchAttempts lib accessToken page (attempt + 1) lastStatus lastRL
               (time_Sleep (backoff attempt) (logf (LogRequestError attempt err) w1))
         | Some (Inr res, w1) \<Rightarrow>
             (let lastStatus' = StatusCode res;
                  lastRL' = \<lparr>Usage = XRateLimitUsage res, Limit = XRateLimitLimit res\<rparr>
              in case ReadErr res of
                   Some readErr \<Rightarrow>
                     fetchAttempts lib accessToken page (attempt + 1) lastStatus' lastRL'
                       (time_Sleep (backoff attempt) (logf (LogReadBody attempt readErr) w1))
                 | None \<Rightarrow>
                     if StatusCode res = StatusOK then
                       (case unmarshalActivities lib (Body res) of
                          Inl err \<Rightarrow>
                            Some (([], StatusCode res, lastRL'),
                                  logf (LogUnmarshalActivities err) w1)
                        | Inr items \<Rightarrow> Some ((items, StatusCode res, lastRL'), w1))
                     else if StatusCode res = StatusTooManyRequests then
                       fetchAttempts lib accessToken page (attempt + 1) lastStatus' lastRL'
                         (time_Sleep (backoff attempt)
                            (logf (LogRateLimitedRetry (backoff attempt) attempt) w1))
                     else if StatusCode res = StatusUnauthorized then
                       Some (([], StatusCode res, lastRL'),
                             logf (LogUnauthorized (WWWAuthenticate res)
                                     (truncate (Body res) 300)) w1)
                     else
                       Some (([], StatusCode res, lastRL'),
                             logf (LogUnexpectedStatus (StatusCode res)
                                     (truncate (Body res) 300)) w1)))
      else Some (([], lastStatus, lastRL), w))"
  by pat_completeness auto
termination
  by (relation "measure (\<lambda>(lib, accessToken, page, attempt, lastStatus, lastRL, w).
        nat (maxRetries + 1 - attempt))") auto

declare fetchAttempts.simps [simp del]

definition fetchActivitiesPage ::
  "'f stdlib \<Rightarrow> ustring \<Rightarrow> int \<Rightarrow> 'f world \<Rightarrow>
     (('f activity list \<times> int \<times> rateLimitUsage) \<times> 'f world) option" where
  "fetchActivitiesPage lib accessToken page w =
     fetchAttempts lib accessToken page 1 0 \<lparr>Usage = [], Limit = []\<rparr> w"

section \<open>Pagination driver\<close>

text \<open>
  One pass through the body of the \<open>for\<close> loop of \<open>main\<close> ends in one of three ways:
  the loop goes round again (\<open>continue\<close>, or the end of the body after \<open>page++\<close>), it is
  left by \<open>break\<close>, or \<open>logger.Fatalf\<close> logs a line and ends the process with status 1.
\<close>

datatype 'f step =
    Continue "'f vars"
  | Break "'f vars"
  | Fatalf "'f logmsg"

definition fatalf :: "'f logmsg \<Rightarrow> 'f world \<Rightarrow> ('f step \<times> 'f world) option" where
  "fatalf m w = Some (Fatalf m, logf m w)"

text \<open>The end of the loop body: the page is logged and appended, then \<open>break\<close> or \<open>page++\<close>.\<close>

definition appendPage ::
  "'f vars \<Rightarrow> 'f activity list \<Rightarrow> 'f world \<Rightarrow> ('f step \<times> 'f world) option" where
  "appendPage v pageActs w =
     (let w1 = logf (LogPageRetrieved (m_page v) (length pageActs)) w;
          v1 = v\<lparr>m_all := m_all v @ pageActs\<rparr>
      in if int (length pageActs) < perPage then Some (Break v1, w1)
         else Some (Continue (v1\<lparr>m_page := m_page v + 1\<rparr>), w1))"

definition mainIteration ::
  "'f stdlib \<Rightarrow> envVars \<Rightarrow> 'f vars \<Rightarrow> 'f world \<Rightarrow> ('f step \<times> 'f world) option" where
  "mainIteration lib cfg v w =
     (case fetchActivitiesPage lib (m_accessToken v) (m_page v) w of
        None \<Rightarrow> None
      | Some ((pageActs, status, rl), w1) \<Rightarrow>
          (let w2 = logf (LogPage (m_page v) status rl) w1 in
           if status = StatusUnauthorized then
             (case refreshAccessToken lib cfg (logf (LogUnauthorizedOnPage (m_page v)) w2) of
                None \<Rightarrow> None
              | Some (Inl rerr, w3) \<Rightarrow> fatalf (LogRefreshAfter401Failed rerr) w3
              | Some (Inr (at', rt'), w3) \<Rightarrow>
                  (case fetchActivitiesPage lib at' (m_page v) w3 of
                     None \<Rightarrow> None
                   | Some ((pageActs', status', rl'), w4) \<Rightarrow>
                       (let w5 = logf (LogRetryPage (m_page v) status' rl') w4 in
                        if status' \<noteq> StatusOK then fatalf (LogAfterRefreshFailed status') w5
                        else appendPage (v\<lparr>m_accessToken := at', m_refreshToken := rt'\<rparr>)
                               pageActs' w5)))
           else if status = StatusTooManyRequests then
             Some (Continue v, time_Sleep (60 * Second) (logf LogBackingOff60 w2))
           else if status \<noteq> StatusOK then fatalf (LogUnexpectedStatusCode status) w2
           else appendPage v pageActs w2))"

text \<open>
  Every call of \<open>client.Do\<close> takes one answer from the script, and every pass through
  the loop body calls it at least once: this is what the loop's recursion descends on.
\<close>

lemma client_Do_script:
  "client_Do req w = Some (r, w') \<Longrightarrow> script w = r # script w'"
  by (auto simp: client_Do_def split: list.splits)

lemma script_logf [simp]: "script (logf m w) = script w"
  by (simp add: logf_def)

lemma script_time_Sleep [simp]: "script (time_Sleep d w) = script w"
  by (simp add: time_Sleep_def)

lemma fetchAttempts_script_aux:
  "nat (maxRetries + 1 - attempt) = n \<Longrightarrow>
   fetchAttempts lib tok pg attempt ls lrl w = Some (res, w') \<Longrightarrow>
   length (script w') \<le> length (script w) \<and>
   (attempt \<le> maxRetries \<longrightarrow> length (script w') < length (script w))"
proof (induction n arbitrary: attempt ls lrl w)
  case 0
  then have "\<not> attempt \<le> maxRetries" by simp
  with 0 show ?case by (simp add: fetchAttempts.simps)
next
  case (Suc n)
  then have le: "attempt \<le> maxRetries" by simp
  have n: "nat (maxRetries + 1 - (attempt + 1)) = n" using Suc.prems(1) by simp
  note IH = Suc.IH [OF n]
  show ?case
    using Suc.prems(2) le
    apply (subst (asm) fetchAttempts.simps)
    apply (auto simp: Let_def split: option.splits sum.splits if_splits
        dest!: client_Do_script IH)
    done
qed

lemma fetchActivitiesPage_script:
  "fetchActivitiesPage lib tok pg w = Some (res, w') \<Longrightarrow>
   length (script w') < length (script w)"
  using fetchAttempts_script_aux [OF refl, of lib tok pg 1 0 _ w res w']
  by (simp add: fetchActivitiesPage_def maxRetries_def)

lemma refreshAccessToken_script:
  "refreshAccessToken lib cfg w = Some (res, w') \<Longrightarrow>
   length (script w') \<le> length (script w)"
  by (auto simp: refreshAccessToken_def split: if_splits option.splits sum.splits
      dest!: client_Do_script)

lemma appendPage_script:
  "appendPage v acts w = Some (st, w') \<Longrightarrow> script w' = script w"
  by (auto simp: appendPage_def Let_def split: if_splits)

lemma fatalf_script:
  "fatalf m w = Some (st, w') \<Longrightarrow> script w' = script w"
  by (auto simp: fatalf_def)

lemma mainIteration_script:
  "mainIteration lib cfg v w = Some (st, w') \<Longrightarrow>
   length (script w') < length (script w)"
  by (auto simp: mainIteration_def Let_def
      split: option.splits prod.splits if_splits sum.splits
      dest!: fetchActivitiesPage_script refreshAccessToken_script appendPage_script
        fatalf_script)

text \<open>
  The \<open>for\<close> loop of \<open>main\<close>. Its result is \<open>Inl\<close> the line of the \<open>logger.Fatalf\<close>
  that ended the process, or \<open>Inr\<close> the variables at the \<open>break\<close>.
\<close>

function mainLoop ::
  "'f stdlib \<Rightarrow> envVars \<Rightarrow> 'f vars \<Rightarrow> 'f world \<Rightarrow>
     (('f logmsg + 'f vars) \<times> 'f world) option" where
  "mainLoop lib cfg v w =
     (case mainIteration lib cfg v w of
        None \<Rightarrow> None
      | Some (Fatalf m, w') \<Rightarrow> Some (Inl m, w')
      | Some (Break v', w') \<Rightarrow> Some (Inr v', w')
      | Some (Continue v', w') \<Rightarrow> mainLoop lib cfg v' w')"
  by pat_completeness auto
termination
  by (relation "measure (\<lambda>(lib, cfg, v, w). length (script w))")
    (auto dest: mainIteration_script)

declare mainLoop.simps [simp del]

section \<open>Aggregator\<close>

text \<open>
  The loop \<open>for _, a := range all\<close> of \<open>main\<close>, on its variables \<open>deskCount\<close> and
  \<open>totalMeters\<close>. \<open>deskCount\<close> counts elements of a slice, so it cannot overflow.
\<close>

fun aggregate :: "'f stdlib \<Rightarrow> 'f activity list \<Rightarrow> int \<times> 'f \<Rightarrow> int \<times> 'f" where
  "aggregate lib [] (deskCount, totalMeters) = (deskCount, totalMeters)"
| "aggregate lib (a # rest) (deskCount, totalMeters) =
     (if EqualFold (foldOrbit lib) (TrimSpace (Name a)) (runes ''Desk Treadmill'')
      then aggregate lib rest (deskCount + 1, f64_add lib totalMeters (Distance a))
      else aggregate lib rest (deskCount, totalMeters))"

section \<open>The program\<close>

text \<open>
  \<open>main\<close>, from the configuration it has loaded. Its result is \<open>Inl\<close> the line of the
  \<open>logger.Fatalf\<close> that ended the process with status 1, or \<open>Inr\<close> what it computed.
\<close>

definition main ::
  "'f stdlib \<Rightarrow> envVars \<Rightarrow> 'f world \<Rightarrow> (('f logmsg + 'f summary) \<times> 'f world) option" where
  "main lib cfg w =
     (case ensureAccessToken lib cfg w of
        None \<Rightarrow> None
      | Some (Inl err, w1) \<Rightarrow> Some (Inl (LogEnsureFailed err), logf (LogEnsureFailed err) w1)
      | Some (Inr (accessToken, refreshToken), w1) \<Rightarrow>
          (case probeToken accessToken w1 of
             None \<Rightarrow> None
           | Some (perr, w2) \<Rightarrow>
               (let w3 = (case perr of
                            Some err \<Rightarrow> logf (LogProbeWarning err) w2
                          | None \<Rightarrow> w2);
                    w4 = logf LogAuthenticated w3
                in case mainLoop lib cfg
                          \<lparr>m_accessToken = accessToken, m_refreshToken = refreshToken,
                           m_all = [], m_page = 1\<rparr> w4 of
                     None \<Rightarrow> None
                   | Some (Inl m, w5) \<Rightarrow> Some (Inl m, w5)
                   | Some (Inr v, w5) \<Rightarrow>
                       (let w6 = logf (LogTotalFetched (length (m_all v))) w5;
                            agg = aggregate lib (m_all v) (0, f64_zero lib);
                            miles = f64_mul lib (snd agg) (f64_milesPerMeter lib);
                            w7 = logf (LogTotalDistance miles) (logf (LogDeskCount (fst agg)) w6);
                            w8 = (if m_refreshToken v \<noteq> [] \<and>
                                     m_refreshToken v \<noteq> StravaRefreshToken cfg
                                  then logf LogNoticeUpdateSecrets
                                         (logf LogNoticeNewRefreshToken w7)
                                  else w7)
                        in Some (Inr \<lparr>r_all = m_all v, r_deskCount = fst agg,
                                       r_totalMeters = snd agg, r_miles = miles,
                                       r_refreshToken = m_refreshToken v\<rparr>, w8)))))"

section \<open>Notions of the specification\<close>

text \<open>A blank string: empty, or white space only.\<close>

definition blank :: "ustring \<Rightarrow> bool" where
  "blank s = (s = [] \<or> list_all IsSpace s)"

text \<open>A configuration with none of the three refresh credentials blank.\<close>

definition complete_credentials :: "envVars \<Rightarrow> bool" where
  "complete_credentials cfg =
     (\<not> blank (StravaClientId cfg) \<and> \<not> blank (StravaClientSecret cfg) \<and>
      \<not> blank (StravaRefreshToken cfg))"

text \<open>The requests among the events, in the order they were sent.\<close>

fun requests :: "'f event list \<Rightarrow> request list" where
  "requests [] = []"
| "requests (Do r # es) = r # requests es"
| "requests (Sleep d # es) = requests es"
| "requests (Log m # es) = requests es"

text \<open>The refresh grant that \<open>refreshAccessToken\<close> posts for a configuration.\<close>

definition refreshRequest :: "envVars \<Rightarrow> request" where
  "refreshRequest cfg =
     PostToken (StravaClientId cfg) (StravaClientSecret cfg) (runes ''refresh_token'')
       (StravaRefreshToken cfg)"

text \<open>
  The activities of a page, as the driver gets them from a status-200 response: the
  decoded sequence, or nothing when the body does not decode.
\<close>

definition pageItems :: "'f stdlib \<Rightarrow> response \<Rightarrow> 'f activity list" where
  "pageItems lib res =
     (case unmarshalActivities lib (Body res) of Inl err \<Rightarrow> [] | Inr items \<Rightarrow> items)"

definition rateLimitOf :: "response \<Rightarrow> rateLimitUsage" where
  "rateLimitOf res = \<lparr>Usage = XRateLimitUsage res, Limit = XRateLimitLimit res\<rparr>"

text \<open>
  The activities the aggregator selects: the condition of the \<open>if\<close> in its loop. For
  names of ASCII characters alone, the same is said without the library: lower the
  case of the trimmed name and compare.
\<close>

definition isDeskTreadmill :: "'f stdlib \<Rightarrow> 'f activity \<Rightarrow> bool" where
  "isDeskTreadmill lib a =
     EqualFold (foldOrbit lib) (TrimSpace (Name a)) (runes ''Desk Treadmill'')"



section \<open>Example values\<close>

text \<open>
  Concrete runs need concrete library functions. The decoders below know the bodies
  used in the examples (written as short stand-ins for the JSON text) and reject
  everything else; the fold orbits are those of \<open>k\<close> (U+212A) and \<open>s\<close> (U+017F), the only
  ones that reach letters of ``Desk Treadmill''; floating-point values are replaced by
  rationals with exact arithmetic.
\<close>

definition reply :: "int \<Rightarrow> string \<Rightarrow> response" where
  "reply st b =
     \<lparr>StatusCode = st, XRateLimitUsage = [], XRateLimitLimit = [], WWWAuthenticate = [],
      Body = b, ReadErr = None\<rparr>"

definition walk :: "rat activity" where
  "walk = \<lparr>ID = 1, Name = runes ''Morning Walk'', Distance = 1000\<rparr>"

definition ex_activities :: "rat activity list" where
  "ex_activities =
     [\<lparr>ID = 1, Name = runes ''Desk Treadmill'', Distance = 1000\<rparr>,
      \<lparr>ID = 2, Name = runes ''desk treadmill '', Distance = 500\<rparr>,
      \<lparr>ID = 3, Name = runes ''Run'', Distance = 5000\<rparr>]"

definition ex_unmarshalActivities :: "string \<Rightarrow> error + rat activity list" where
  "ex_unmarshalActivities b =
     (if b = ''[200 activities]'' then Inr (replicate 200 walk)
      else if b = ''[150 activities]'' then Inr (replicate 150 walk)
      else if b = ''[80 activities]'' then Inr (replicate 80 walk)
      else if b = ''[Desk Treadmill, desk treadmill , Run]'' then Inr ex_activities
      else if b = ''[]'' then Inr []
      else Inl (LibError ''invalid character''))"

definition ex_unmarshalAuth :: "string \<Rightarrow> error + authResponse" where
  "ex_unmarshalAuth b =
     (if b = ''{access_token:A2,refresh_token:R2}''
      then Inr \<lparr>AccessToken = runes ''A2'', ExpiresIn = 21600, TokenType = runes ''Bearer'',
                RefreshToken = runes ''R2''\<rparr>
      else Inl (LibError ''invalid character''))"

definition ex_foldOrbit :: "rune \<Rightarrow> rune \<Rightarrow> bool" where
  "ex_foldOrbit sr tr =
     (((sr = 75 \<or> sr = 107) \<and> tr = 8490) \<or> ((sr = 83 \<or> sr = 115) \<and> tr = 383))"

definition ex_lib :: "rat stdlib" where
  "ex_lib =
     \<lparr>foldOrbit = ex_foldOrbit,
      unmarshalActivities = ex_unmarshalActivities,
      unmarshalAuth = ex_unmarshalAuth,
      f64_zero = 0, f64_add = (+), f64_mul = (*),
      f64_milesPerMeter = 621371 / 1000000000\<rparr>"

definition ex_cfg :: envVars where
  "ex_cfg =
     \<lparr>StravaClientId = runes ''12345'', StravaClientSecret = runes ''secret'',
      StravaRefreshToken = runes ''R1'', StravaAccessToken = runes ''A1''\<rparr>"

text \<open>The variables of \<open>main\<close> when its loop starts, with the tokens of \<open>ex_cfg\<close>.\<close>

definition ex_vars :: "rat vars" where
  "ex_vars =
     \<lparr>m_accessToken = runes ''A1'', m_refreshToken = runes ''R1'', m_all = [], m_page = 1\<rparr>"

text \<open>
  Three worlds. In the first the page is refused with 401, the refresh succeeds and
  the retry brings a last page of 80 activities; in the second the retry is refused
  again; the third answers the two probes of \<open>main\<close>, then gives one page with the
  three activities of \<open>ex_activities\<close>.
\<close>

definition ex_world_80 :: "rat world" where
  "ex_world_80 =
     \<lparr>script = [Inr (reply 401 ''unauthorized''),
                Inr (reply 200 ''{access_token:A2,refresh_token:R2}''),
                Inr (reply 200 ''[80 activities]'')],
      trace = []\<rparr>"

definition ex_world_401_401 :: "rat world" where
  "ex_world_401_401 =
     \<lparr>script = [Inr (reply 401 ''unauthorized''),
                Inr (reply 200 ''{access_token:A2,refresh_token:R2}''),
                Inr (reply 401 ''unauthorized''),
                Inr (reply 200 ''[80 activities]'')],
      trace = []\<rparr>"

text \<open>A world where the first answer is a 429 and the second a last page of 150.\<close>

definition ex_world_429 :: "rat world" where
  "ex_world_429 =
     \<lparr>script = [Inr (reply 429 ''slow down''), Inr (reply 200 ''[150 activities]'')],
      trace = []\<rparr>"


section \<open>Evaluating concrete runs\<close>

lemma ex_lib_sel:
  "foldOrbit ex_lib = ex_foldOrbit"
  "unmarshalActivities ex_lib = ex_unmarshalActivities"
  "unmarshalAuth ex_lib = ex_unmarshalAuth"
  "f64_zero ex_lib = 0"
  "f64_add ex_lib = (+)"
  "f64_mul ex_lib = (*)"
  "f64_milesPerMeter ex_lib = 621371 / 1000000000"
  by (simp_all add: ex_lib_def)

lemmas run_defs =
  main_def ensureAccessToken_def refreshAccessToken_def probeToken_def mainLoop.simps
  mainIteration_def fetchActivitiesPage_def fetchAttempts.simps client_Do_def fatalf_def
  appendPage_def logf_def time_Sleep_def truncate_def Let_def
  TrimSpace_def IsSpace_def runes_def equalFoldRune_def RuneSelf_def
  StatusOK_def StatusUnauthorized_def StatusTooManyRequests_def maxRetries_def perPage_def
  Second_def backoff_def int64_def

lemmas ex_defs =
  ex_cfg_def ex_lib_sel ex_vars_def reply_def ex_unmarshalActivities_def ex_unmarshalAuth_def
  ex_foldOrbit_def ex_activities_def refreshRequest_def

lemma ex_reply [simp]:
  "StatusCode (reply st b) = st" "ReadErr (reply st b) = None" "Body (reply st b) = b"
  by (simp_all add: reply_def)

lemma ex_pageItems:
  "pageItems ex_lib (reply 200 ''[200 activities]'') = replicate 200 walk"
  "pageItems ex_lib (reply 200 ''[150 activities]'') = replicate 150 walk"
  "pageItems ex_lib (reply 200 ''[80 activities]'') = replicate 80 walk"
  "pageItems ex_lib (reply 200 ''[]'') = []"
  by (simp_all add: pageItems_def ex_lib_sel ex_unmarshalActivities_def)

section \<open>Backoff: claim C9\<close>

lemma int64_id: "- (2 ^ 63) \<le> x \<Longrightarrow> x < 2 ^ 63 \<Longrightarrow> int64 x = x"
  by (simp add: int64_def signed_take_bit_int_eq_self)

lemma pow_le_33:
  assumes "n \<le> (33::nat)"
  shows "(2::int) ^ n \<le> 2 ^ 33"
  using assms by (intro power_increasing) auto

text \<open>Up to attempt 34 nothing overflows, and \<open>backoff\<close> is the capped power of two.\<close>

lemma backoff_in_range:
  assumes "1 \<le> n" and "n \<le> 34"
  shows "backoff n = min (2 ^ nat (n - 1) * Second) (30 * Second)"
proof -
  let ?k = "nat (n - 1)"
  have k: "?k \<le> 33" using assms by simp
  have p: "(2::int) ^ ?k \<le> 2 ^ 33" using k by (rule pow_le_33)
  have lo: "- (2 ^ 63) \<le> (2::int) ^ ?k"
    by (rule order_trans [of _ 0]) simp_all
  have a: "int64 (2 ^ ?k) = 2 ^ ?k"
    using p lo by (intro int64_id) auto
  have lo': "- (2 ^ 63) \<le> (2::int) ^ ?k * Second"
    by (rule order_trans [of _ 0]) (simp_all add: Second_def)
  have b: "int64 (2 ^ ?k * Second) = 2 ^ ?k * Second"
    using p lo' by (intro int64_id) (auto simp: Second_def)
  show ?thesis
    using assms a b by (simp add: backoff_def Let_def min_def)
qed

lemma backoff_values:
  "backoff 1 = 1 * Second" "backoff 2 = 2 * Second"
  "backoff 3 = 4 * Second" "backoff 10 = 30 * Second"
  by (simp_all add: backoff_def int64_def Second_def)

text \<open>
  Claim C9: for every attempt index \<open>n \<ge> 1\<close>, \<open>backoff n\<close> is the smaller of
  \<open>2 ^ (n - 1)\<close> seconds and 30 seconds. The four values the claim lists are right
  (\<open>backoff_values\<close>), and so is every attempt up to 34 (\<open>backoff_in_range\<close>). At attempt
  35 the product \<open>2 ^ 34 * 10 ^ 9\<close> no longer fits an \<open>int64\<close>: it wraps to a negative
  duration, which the cap \<open>d > 30 * time.Second\<close> lets through.
\<close>

theorem backoff_35_wraps:
  "backoff 35 = - 1266874889709551616 \<and>
   backoff 35 \<noteq> min (2 ^ nat (35 - 1) * Second) (30 * Second)"
  by (simp add: backoff_def int64_def Second_def)

section \<open>Token manager: claims C5, C10, C6 and C4\<close>

lemma dropWhile_all_iff:
  "(\<forall>x\<in>set (dropWhile P xs). P x) \<longleftrightarrow> (\<forall>x\<in>set xs. P x)"
  by (induction xs) auto

lemma TrimSpace_empty_iff: "TrimSpace s = [] \<longleftrightarrow> blank s"
  by (auto simp: TrimSpace_def blank_def list_all_iff dropWhile_all_iff)

lemma requests_append [simp]: "requests (xs @ ys) = requests xs @ requests ys"
  by (induction xs rule: requests.induct) simp_all

lemma requests_logf [simp]: "requests (trace (logf m w)) = requests (trace w)"
  by (simp add: logf_def)

lemma requests_time_Sleep [simp]: "requests (trace (time_Sleep d w)) = requests (trace w)"
  by (simp add: time_Sleep_def)

lemma refreshAccessToken_requests:
  "refreshAccessToken lib cfg w = Some (out, w') \<Longrightarrow>
   requests (trace w') =
     requests (trace w) @ (if complete_credentials cfg then [refreshRequest cfg] else [])"
  by (auto simp: refreshAccessToken_def TrimSpace_empty_iff client_Do_def
      complete_credentials_def refreshRequest_def logf_def
      split: list.splits sum.splits if_splits)

lemma refreshAccessToken_ok_requests:
  assumes "refreshAccessToken lib cfg w = Some (Inr toks, w')"
  shows "requests (trace w') = requests (trace w) @ [refreshRequest cfg]"
proof -
  have "complete_credentials cfg"
    using assms
    by (auto simp: refreshAccessToken_def complete_credentials_def TrimSpace_empty_iff
        split: if_splits)
  with refreshAccessToken_requests [OF assms] show ?thesis by simp
qed

text \<open>
  Claim C5: when \<open>client_id\<close>, \<open>client_secret\<close> or \<open>refresh_token\<close> is blank,
  \<open>refreshAccessToken\<close> fails with the configuration error and makes no network call:
  the world it returns is the one it was given, so no request was sent and no answer
  was taken.
\<close>

theorem refreshAccessToken_blank:
  "blank (StravaClientId cfg) \<or> blank (StravaClientSecret cfg) \<or>
     blank (StravaRefreshToken cfg) \<Longrightarrow>
   refreshAccessToken lib cfg w = Some (Inl MissingCredentials, w)"
  by (auto simp: refreshAccessToken_def TrimSpace_empty_iff)

theorem refreshAccessToken_blank_witness:
  "blank (StravaRefreshToken (ex_cfg\<lparr>StravaRefreshToken := runes ''  ''\<rparr>)) \<and>
   refreshAccessToken ex_lib (ex_cfg\<lparr>StravaRefreshToken := runes ''  ''\<rparr>)
     \<lparr>script = [Inr (reply 200 ''{access_token:A2,refresh_token:R2}'')], trace = []\<rparr> =
   Some (Inl MissingCredentials,
     \<lparr>script = [Inr (reply 200 ''{access_token:A2,refresh_token:R2}'')], trace = []\<rparr>)"
  using refreshAccessToken_blank [of "ex_cfg\<lparr>StravaRefreshToken := runes ''  ''\<rparr>" ex_lib
      "\<lparr>script = [Inr (reply 200 ''{access_token:A2,refresh_token:R2}'')], trace = []\<rparr>"]
  by (simp add: blank_def runes_def IsSpace_def)






text \<open>
  Claim C4 speaks of every non-empty cached access token. The code tests
  \<open>strings.TrimSpace(cfg.StravaAccessToken) == ""\<close>: a token of one space is not empty,
  yet no probe is sent; the answer that would have told a probe ``200'' goes to a
  refresh call, and the refreshed tokens are returned in place of the cached ones.
\<close>

theorem ensureAccessToken_space_counterexample:
  "StravaAccessToken (ex_cfg\<lparr>StravaAccessToken := runes '' ''\<rparr>) \<noteq> [] \<and>
   ensureAccessToken ex_lib (ex_cfg\<lparr>StravaAccessToken := runes '' ''\<rparr>)
     \<lparr>script = [Inr (reply 200 ''{access_token:A2,refresh_token:R2}'')], trace = []\<rparr> =
   Some (Inr (runes ''A2'', runes ''R2''),
     \<lparr>script = [],
      trace = [Log LogNoAccessToken, Do (refreshRequest ex_cfg), Log (LogTokenRefreshed 21600)]\<rparr>)"
  by (simp add: ensureAccessToken_def refreshAccessToken_def ex_cfg_def runes_def TrimSpace_def
      IsSpace_def client_Do_def reply_def StatusOK_def refreshRequest_def logf_def ex_lib_def
      ex_unmarshalAuth_def)

text \<open>
  Claim C4 as amended: when the cached access token is not blank, the probe is sent.
  If it is answered with any status but 401, the cached access and refresh tokens are
  returned and the probe is the only request made. If it is answered with 401, or
  fails in transport, \<open>refreshAccessToken\<close> is called once and its result is the
  result; the requests made are the probe and, when the credentials are complete, the
  one refresh grant.
\<close>

theorem ensureAccessToken_probe:
  assumes "\<not> blank (StravaAccessToken cfg)" and "script w = r # rest"
  shows "(case r of
            Inl err \<Rightarrow>
              ensureAccessToken lib cfg w =
                refreshAccessToken lib cfg
                  (logf (LogProbeFailed err)
                    (w\<lparr>script := rest,
                       trace := trace w @ [Do (GetActivitiesProbe (StravaAccessToken cfg))]\<rparr>))
          | Inr res \<Rightarrow>
              if StatusCode res = StatusUnauthorized
              then ensureAccessToken lib cfg w =
                refreshAccessToken lib cfg
                  (logf LogTokenRejected
                    (w\<lparr>script := rest,
                       trace := trace w @ [Do (GetActivitiesProbe (StravaAccessToken cfg))]\<rparr>))
              else ensureAccessToken lib cfg w =
                Some (Inr (StravaAccessToken cfg, StravaRefreshToken cfg),
                  w\<lparr>script := rest,
                    trace := trace w @ [Do (GetActivitiesProbe (StravaAccessToken cfg))]\<rparr>)) \<and>
         (\<forall>out w'. ensureAccessToken lib cfg w = Some (out, w') \<longrightarrow>
            requests (trace w') =
              requests (trace w) @ GetActivitiesProbe (StravaAccessToken cfg) #
                (if (case r of Inl err \<Rightarrow> True | Inr res \<Rightarrow> StatusCode res = StatusUnauthorized)
                    \<and> complete_credentials cfg
                 then [refreshRequest cfg] else []))"
proof -
  have ne: "TrimSpace (StravaAccessToken cfg) \<noteq> []"
    using assms(1) by (simp add: TrimSpace_empty_iff)
  show ?thesis
  proof (cases r)
    case (Inl err)
    then show ?thesis
      using ne assms(2)
      by (auto simp: ensureAccessToken_def client_Do_def logf_def
          dest!: refreshAccessToken_requests)
  next
    case (Inr res)
    then show ?thesis
      using ne assms(2)
      by (auto simp: ensureAccessToken_def client_Do_def logf_def
          dest!: refreshAccessToken_requests)
  qed
qed

theorem ensureAccessToken_probe_witness:
  "ensureAccessToken ex_lib ex_cfg \<lparr>script = [Inr (reply 200 ''[]'')], trace = []\<rparr> =
     Some (Inr (runes ''A1'', runes ''R1''),
       \<lparr>script = [], trace = [Do (GetActivitiesProbe (runes ''A1''))]\<rparr>) \<and>
   ensureAccessToken ex_lib ex_cfg
     \<lparr>script = [Inr (reply 401 ''unauthorized''),
                 Inr (reply 200 ''{access_token:A2,refresh_token:R2}'')], trace = []\<rparr> =
     Some (Inr (runes ''A2'', runes ''R2''),
       \<lparr>script = [],
        trace = [Do (GetActivitiesProbe (runes ''A1'')), Log LogTokenRejected,
                 Do (refreshRequest ex_cfg), Log (LogTokenRefreshed 21600)]\<rparr>)"
  using
    ensureAccessToken_probe [of ex_cfg "\<lparr>script = [Inr (reply 200 ''[]'')], trace = []\<rparr>"
      "Inr (reply 200 ''[]'')" "[]" ex_lib]
    ensureAccessToken_probe [of ex_cfg
      "\<lparr>script = [Inr (reply 401 ''unauthorized''),
                  Inr (reply 200 ''{access_token:A2,refresh_token:R2}'')], trace = []\<rparr>"
      "Inr (reply 401 ''unauthorized'')"
      "[Inr (reply 200 ''{access_token:A2,refresh_token:R2}'')]" ex_lib]
  by (simp add: blank_def ex_cfg_def runes_def IsSpace_def reply_def StatusUnauthorized_def
      refreshAccessToken_def TrimSpace_def client_Do_def StatusOK_def ex_lib_def
      ex_unmarshalAuth_def logf_def refreshRequest_def)


section \<open>Aggregator: lemmas\<close>


lemma aggregate_replicate_other:
  "\<not> isDeskTreadmill lib a \<Longrightarrow> aggregate lib (replicate n a) (c, t) = (c, t)"
  by (induction n) (simp_all add: isDeskTreadmill_def)

lemma aggregate_replicate_walk:
  "aggregate ex_lib (replicate n walk) (c, t) = (c, t)"
  by (rule aggregate_replicate_other)
    (simp add: isDeskTreadmill_def walk_def ex_lib_sel runes_def TrimSpace_def IsSpace_def
      equalFoldRune_def RuneSelf_def ex_foldOrbit_def)

section \<open>Pagination driver: claims C1, C2, C3 and C7\<close>

subsection \<open>What one page fetch sends and takes\<close>

lemma client_Do_requests:
  "client_Do req w = Some (r, w') \<Longrightarrow>
   script w = r # script w' \<and> requests (trace w') = requests (trace w) @ [req]"
  by (auto simp: client_Do_def split: list.splits)

lemma fetchAttempts_requests:
  "nat (maxRetries + 1 - attempt) = n \<Longrightarrow>
   fetchAttempts lib tok pg attempt ls lrl w = Some (res, w') \<Longrightarrow>
   length (script w') \<le> length (script w) \<and>
   length (script w) - length (script w') \<le> n \<and>
   requests (trace w') =
     requests (trace w) @
       replicate (length (script w) - length (script w')) (GetActivities perPage pg tok)"
proof (induction n arbitrary: attempt ls lrl w)
  case 0
  then have "\<not> attempt \<le> maxRetries" by simp
  with 0 show ?case by (simp add: fetchAttempts.simps)
next
  case (Suc n)
  then have le: "attempt \<le> maxRetries" by simp
  have n: "nat (maxRetries + 1 - (attempt + 1)) = n" using Suc.prems(1) by simp
  note IH = Suc.IH [OF n]
  show ?case
    using Suc.prems(2) le
    apply (subst (asm) fetchAttempts.simps)
    apply (auto simp: Let_def Suc_diff_le replicate_append_same
        split: option.splits sum.splits if_splits
        dest!: client_Do_requests IH)
    done
qed

lemma fetchActivitiesPage_requests:
  assumes "fetchActivitiesPage lib tok pg w = Some (res, w')"
  shows "\<exists>k. 1 \<le> k \<and> k \<le> 3 \<and>
    requests (trace w') = requests (trace w) @ replicate k (GetActivities perPage pg tok)"
proof -
  have "nat (maxRetries + 1 - 1) = 3" by (simp add: maxRetries_def)
  from fetchAttempts_requests [OF this] assms
  have "length (script w) - length (script w') \<le> 3"
    and "requests (trace w') =
     requests (trace w) @
       replicate (length (script w) - length (script w')) (GetActivities perPage pg tok)"
    unfolding fetchActivitiesPage_def by blast+
  moreover have "1 \<le> length (script w) - length (script w')"
    using fetchActivitiesPage_script [OF assms] by simp
  ultimately show ?thesis by blast
qed

lemma fetchActivitiesPage_200:
  assumes "script w = Inr res # rest" and "StatusCode res = StatusOK" and "ReadErr res = None"
  shows "\<exists>w1. fetchActivitiesPage lib tok pg w =
            Some ((pageItems lib res, StatusOK, rateLimitOf res), w1) \<and>
          script w1 = rest \<and>
          requests (trace w1) = requests (trace w) @ [GetActivities perPage pg tok]"
  using assms
  by (auto simp: fetchActivitiesPage_def fetchAttempts.simps [of _ _ _ 1] maxRetries_def
      client_Do_def pageItems_def rateLimitOf_def logf_def split: sum.splits)

lemma mainIteration_200:
  assumes "script w = Inr res # rest" and "StatusCode res = StatusOK" and "ReadErr res = None"
  shows "\<exists>w1. mainIteration lib cfg v w =
            Some (if int (length (pageItems lib res)) < perPage
                  then Break (v\<lparr>m_all := m_all v @ pageItems lib res\<rparr>)
                  else Continue (v\<lparr>m_all := m_all v @ pageItems lib res,
                                   m_page := m_page v + 1\<rparr>), w1) \<and>
          script w1 = rest \<and>
          requests (trace w1) =
            requests (trace w) @ [GetActivities perPage (m_page v) (m_accessToken v)]"
proof -
  from fetchActivitiesPage_200 [OF assms, of lib "m_accessToken v" "m_page v"]
  obtain w1 where f: "fetchActivitiesPage lib (m_accessToken v) (m_page v) w =
            Some ((pageItems lib res, StatusOK, rateLimitOf res), w1)"
    and s: "script w1 = rest"
    and r: "requests (trace w1) =
      requests (trace w) @ [GetActivities perPage (m_page v) (m_accessToken v)]"
    by blast
  show ?thesis
    using f s r
    by (simp add: mainIteration_def Let_def appendPage_def StatusOK_def
        StatusUnauthorized_def StatusTooManyRequests_def)
qed

lemma map_upt_Suc_shift: "map f [0..<Suc n] = f 0 # map (\<lambda>i. f (Suc i)) [0..<n]"
  by (simp add: map_upt_Suc del: upt_Suc)

subsection \<open>Claim C1\<close>

text \<open>A page fetch that returns status 200, however many attempts it took.\<close>

lemma mainLoop_page:
  assumes "fetchActivitiesPage lib (m_accessToken v) (m_page v) w =
             Some ((acts, StatusOK, rl), w1)"
  shows "mainLoop lib cfg v w =
           (if int (length acts) < perPage
            then Some (Inr (v\<lparr>m_all := m_all v @ acts\<rparr>),
                       logf (LogPageRetrieved (m_page v) (length acts))
                         (logf (LogPage (m_page v) StatusOK rl) w1))
            else mainLoop lib cfg (v\<lparr>m_all := m_all v @ acts, m_page := m_page v + 1\<rparr>)
                   (logf (LogPageRetrieved (m_page v) (length acts))
                      (logf (LogPage (m_page v) StatusOK rl) w1)))"
  using assms
  by (simp add: mainLoop.simps [of lib cfg v w] mainIteration_def Let_def appendPage_def
      StatusOK_def StatusUnauthorized_def StatusTooManyRequests_def)

lemma pagination_sequence:
  assumes "\<forall>r\<in>set rs. StatusCode r = StatusOK \<and> ReadErr r = None \<and>
             \<not> int (length (pageItems lib r)) < perPage"
    and "StatusCode rl = StatusOK \<and> ReadErr rl = None \<and>
             int (length (pageItems lib rl)) < perPage"
    and "script w = map Inr rs @ Inr rl # rest"
  shows "\<exists>w'. mainLoop lib cfg v w =
            Some (Inr (v\<lparr>m_all := m_all v @ concat (map (pageItems lib) (rs @ [rl])),
                          m_page := m_page v + int (length rs)\<rparr>), w') \<and>
          script w' = rest \<and>
          requests (trace w') =
            requests (trace w) @
              map (\<lambda>i. GetActivities perPage (m_page v + int i) (m_accessToken v))
                [0..<Suc (length rs)]"
  using assms
proof (induction rs arbitrary: v w)
  case Nil
  then have s: "script w = Inr rl # rest" by simp
  from mainIteration_200 [OF s, of lib cfg v] Nil.prems(2)
  obtain w1 where "mainIteration lib cfg v w =
      Some (Break (v\<lparr>m_all := m_all v @ pageItems lib rl\<rparr>), w1)"
    and "script w1 = rest"
    and "requests (trace w1) =
      requests (trace w) @ [GetActivities perPage (m_page v) (m_accessToken v)]"
    by auto
  then show ?case by (simp add: mainLoop.simps)
next
  case (Cons r rs)
  let ?v1 = "v\<lparr>m_all := m_all v @ pageItems lib r, m_page := m_page v + 1\<rparr>"
  have s: "script w = Inr r # (map Inr rs @ Inr rl # rest)" using Cons.prems(3) by simp
  have r: "StatusCode r = StatusOK" "ReadErr r = None"
    "\<not> int (length (pageItems lib r)) < perPage"
    using Cons.prems(1) by simp_all
  from mainIteration_200 [OF s r(1,2), of lib cfg v] r(3)
  obtain w1 where it: "mainIteration lib cfg v w = Some (Continue ?v1, w1)"
    and s1: "script w1 = map Inr rs @ Inr rl # rest"
    and r1: "requests (trace w1) =
      requests (trace w) @ [GetActivities perPage (m_page v) (m_accessToken v)]"
    by auto
  have rest: "\<forall>r\<in>set rs. StatusCode r = StatusOK \<and> ReadErr r = None \<and>
             \<not> int (length (pageItems lib r)) < perPage"
    using Cons.prems(1) by simp
  from Cons.IH [OF rest Cons.prems(2) s1, of ?v1]
  obtain w' where l: "mainLoop lib cfg ?v1 w1 =
            Some (Inr (?v1\<lparr>m_all := m_all ?v1 @ concat (map (pageItems lib) (rs @ [rl])),
                          m_page := m_page ?v1 + int (length rs)\<rparr>), w')"
    and s': "script w' = rest"
    and r': "requests (trace w') =
            requests (trace w1) @
              map (\<lambda>i. GetActivities perPage (m_page ?v1 + int i) (m_accessToken ?v1))
                [0..<Suc (length rs)]"
    by blast
  have "mainLoop lib cfg v w = mainLoop lib cfg ?v1 w1"
    using it by (simp add: mainLoop.simps [of lib cfg v w])
  moreover have "requests (trace w') =
      requests (trace w) @
        map (\<lambda>i. GetActivities perPage (m_page v + int i) (m_accessToken v))
          [0..<Suc (length (r # rs))]"
    unfolding r' r1
    by (simp add: map_upt_Suc_shift [of _ "Suc (length rs)"] add.assoc del: upt_Suc)
  ultimately show ?case
    using l s' by (simp add: add.assoc)
qed

text \<open>
  Claim C1. A page fetch that returns status 200 has its activities appended to those
  gathered so far; the loop ends there when the page has fewer than 200 of them, and
  goes on to the next page index otherwise. So, over answers that all have status
  200: when the pages of \<open>rs\<close> have 200 activities or more and the page of \<open>rl\<close> has
  fewer, the loop ends right after \<open>rl\<close> and leaves every later answer untouched; it has
  gathered the pages in order, and has sent one request for each of the page indices
  from the first on, in increasing order. (A status-200 body that does not decode
  counts as a page of no activities, see C2.)
\<close>

theorem pagination_pages:
  "(fetchActivitiesPage lib (m_accessToken v) (m_page v) w =
      Some ((acts, StatusOK, rl0), w1) \<longrightarrow>
    mainLoop lib cfg v w =
      (if int (length acts) < perPage
       then Some (Inr (v\<lparr>m_all := m_all v @ acts\<rparr>),
                  logf (LogPageRetrieved (m_page v) (length acts))
                    (logf (LogPage (m_page v) StatusOK rl0) w1))
       else mainLoop lib cfg (v\<lparr>m_all := m_all v @ acts, m_page := m_page v + 1\<rparr>)
              (logf (LogPageRetrieved (m_page v) (length acts))
                 (logf (LogPage (m_page v) StatusOK rl0) w1)))) \<and>
   ((\<forall>r\<in>set rs. StatusCode r = StatusOK \<and> ReadErr r = None \<and>
        \<not> int (length (pageItems lib r)) < perPage) \<and>
    StatusCode rl = StatusOK \<and> ReadErr rl = None \<and>
    int (length (pageItems lib rl)) < perPage \<and>
    script w = map Inr rs @ Inr rl # rest \<longrightarrow>
    (\<exists>w'. mainLoop lib cfg v w =
            Some (Inr (v\<lparr>m_all := m_all v @ concat (map (pageItems lib) (rs @ [rl])),
                          m_page := m_page v + int (length rs)\<rparr>), w') \<and>
          script w' = rest \<and>
          requests (trace w') =
            requests (trace w) @
              map (\<lambda>i. GetActivities perPage (m_page v + int i) (m_accessToken v))
                [0..<Suc (length rs)]))"
proof (intro conjI impI)
  assume "fetchActivitiesPage lib (m_accessToken v) (m_page v) w =
      Some ((acts, StatusOK, rl0), w1)"
  then show "mainLoop lib cfg v w =
      (if int (length acts) < perPage
       then Some (Inr (v\<lparr>m_all := m_all v @ acts\<rparr>),
                  logf (LogPageRetrieved (m_page v) (length acts))
                    (logf (LogPage (m_page v) StatusOK rl0) w1))
       else mainLoop lib cfg (v\<lparr>m_all := m_all v @ acts, m_page := m_page v + 1\<rparr>)
              (logf (LogPageRetrieved (m_page v) (length acts))
                 (logf (LogPage (m_page v) StatusOK rl0) w1)))"
    by (rule mainLoop_page)
next
  assume h: "(\<forall>r\<in>set rs. StatusCode r = StatusOK \<and> ReadErr r = None \<and>
        \<not> int (length (pageItems lib r)) < perPage) \<and>
    StatusCode rl = StatusOK \<and> ReadErr rl = None \<and>
    int (length (pageItems lib rl)) < perPage \<and>
    script w = map Inr rs @ Inr rl # rest"
  show "\<exists>w'. mainLoop lib cfg v w =
            Some (Inr (v\<lparr>m_all := m_all v @ concat (map (pageItems lib) (rs @ [rl])),
                          m_page := m_page v + int (length rs)\<rparr>), w') \<and>
          script w' = rest \<and>
          requests (trace w') =
            requests (trace w) @
              map (\<lambda>i. GetActivities perPage (m_page v + int i) (m_accessToken v))
                [0..<Suc (length rs)]"
    by (rule pagination_sequence) (use h in blast)+
qed

theorem pagination_pages_witness:
  "(\<exists>v' w'. mainLoop ex_lib ex_cfg ex_vars
       \<lparr>script = [Inr (reply 200 ''[200 activities]''), Inr (reply 200 ''[200 activities]''),
                  Inr (reply 200 ''[150 activities]''), Inr (reply 200 ''[200 activities]'')],
        trace = []\<rparr> = Some (Inr v', w') \<and>
     m_all v' = replicate 200 walk @ replicate 200 walk @ replicate 150 walk \<and>
     length (m_all v') = 550 \<and> m_page v' = 3 \<and>
     script w' = [Inr (reply 200 ''[200 activities]'')] \<and>
     requests (trace w') =
       [GetActivities 200 1 (runes ''A1''), GetActivities 200 2 (runes ''A1''),
        GetActivities 200 3 (runes ''A1'')]) \<and>
   (\<exists>v' w'. mainLoop ex_lib ex_cfg ex_vars
       \<lparr>script = [Inr (reply 200 ''[200 activities]''), Inr (reply 200 ''[200 activities]''),
                  Inr (reply 200 ''[200 activities]''), Inr (reply 200 ''[]'')],
        trace = []\<rparr> = Some (Inr v', w') \<and>
     length (m_all v') = 600 \<and> m_page v' = 4 \<and>
     script w' = [] \<and>
     requests (trace w') =
       [GetActivities 200 1 (runes ''A1''), GetActivities 200 2 (runes ''A1''),
        GetActivities 200 3 (runes ''A1''), GetActivities 200 4 (runes ''A1'')]) \<and>
   mainLoop ex_lib ex_cfg ex_vars ex_world_429 =
     Some (Inr (ex_vars\<lparr>m_all := replicate 150 walk\<rparr>),
       \<lparr>script = [],
        trace = [Do (GetActivities 200 1 (runes ''A1'')),
                 Log (LogRateLimitedRetry 1000000000 1), Sleep 1000000000,
                 Do (GetActivities 200 1 (runes ''A1'')),
                 Log (LogPage 1 200 \<lparr>Usage = [], Limit = []\<rparr>),
                 Log (LogPageRetrieved 1 150)]\<rparr>)"
proof (intro conjI)
  from pagination_pages [where rs = "[reply 200 ''[200 activities]'', reply 200 ''[200 activities]'']"
      and lib = ex_lib and rl = "reply 200 ''[150 activities]''"
      and w = "\<lparr>script = [Inr (reply 200 ''[200 activities]''), Inr (reply 200 ''[200 activities]''),
                  Inr (reply 200 ''[150 activities]''), Inr (reply 200 ''[200 activities]'')],
        trace = []\<rparr>" and rest = "[Inr (reply 200 ''[200 activities]'')]"
      and cfg = ex_cfg and v = ex_vars, THEN conjunct2]
  show "\<exists>v' w'. mainLoop ex_lib ex_cfg ex_vars
       \<lparr>script = [Inr (reply 200 ''[200 activities]''), Inr (reply 200 ''[200 activities]''),
                  Inr (reply 200 ''[150 activities]''), Inr (reply 200 ''[200 activities]'')],
        trace = []\<rparr> = Some (Inr v', w') \<and>
     m_all v' = replicate 200 walk @ replicate 200 walk @ replicate 150 walk \<and>
     length (m_all v') = 550 \<and> m_page v' = 3 \<and>
     script w' = [Inr (reply 200 ''[200 activities]'')] \<and>
     requests (trace w') =
       [GetActivities 200 1 (runes ''A1''), GetActivities 200 2 (runes ''A1''),
        GetActivities 200 3 (runes ''A1'')]"
    by (auto simp: ex_pageItems StatusOK_def perPage_def ex_vars_def)
next
  from pagination_pages [where rs = "[reply 200 ''[200 activities]'', reply 200 ''[200 activities]'',
        reply 200 ''[200 activities]'']"
      and lib = ex_lib and rl = "reply 200 ''[]''"
      and w = "\<lparr>script = [Inr (reply 200 ''[200 activities]''), Inr (reply 200 ''[200 activities]''),
                  Inr (reply 200 ''[200 activities]''), Inr (reply 200 ''[]'')],
        trace = []\<rparr>" and rest = "[]" and cfg = ex_cfg and v = ex_vars, THEN conjunct2]
  show "\<exists>v' w'. mainLoop ex_lib ex_cfg ex_vars
       \<lparr>script = [Inr (reply 200 ''[200 activities]''), Inr (reply 200 ''[200 activities]''),
                  Inr (reply 200 ''[200 activities]''), Inr (reply 200 ''[]'')],
        trace = []\<rparr> = Some (Inr v', w') \<and>
     length (m_all v') = 600 \<and> m_page v' = 4 \<and>
     script w' = [] \<and>
     requests (trace w') =
       [GetActivities 200 1 (runes ''A1''), GetActivities 200 2 (runes ''A1''),
        GetActivities 200 3 (runes ''A1''), GetActivities 200 4 (runes ''A1'')]"
    by (auto simp: ex_pageItems StatusOK_def perPage_def ex_vars_def)
next
  let ?w1 = "\<lparr>script = [],
        trace = [Do (GetActivities 200 1 (runes ''A1'')),
                 Log (LogRateLimitedRetry 1000000000 1), Sleep 1000000000,
                 Do (GetActivities 200 1 (runes ''A1''))]\<rparr> :: rat world"
  have f: "fetchActivitiesPage ex_lib (m_accessToken ex_vars) (m_page ex_vars) ex_world_429 =
      Some ((replicate 150 walk, StatusOK, \<lparr>Usage = [], Limit = []\<rparr>), ?w1)"
    by (simp add: run_defs ex_defs ex_world_429_def)
  from pagination_pages [where lib = ex_lib and v = ex_vars and w = ex_world_429
      and acts = "replicate 150 walk" and ?rl0.0 = "\<lparr>Usage = [], Limit = []\<rparr>" and ?w1.0 = ?w1
      and cfg = ex_cfg, THEN conjunct1] f
  show "mainLoop ex_lib ex_cfg ex_vars ex_world_429 =
     Some (Inr (ex_vars\<lparr>m_all := replicate 150 walk\<rparr>),
       \<lparr>script = [],
        trace = [Do (GetActivities 200 1 (runes ''A1'')),
                 Log (LogRateLimitedRetry 1000000000 1), Sleep 1000000000,
                 Do (GetActivities 200 1 (runes ''A1'')),
                 Log (LogPage 1 200 \<lparr>Usage = [], Limit = []\<rparr>),
                 Log (LogPageRetrieved 1 150)]\<rparr>)"
    by (simp add: perPage_def logf_def ex_vars_def StatusOK_def)
qed

subsection \<open>Claim C2\<close>

text \<open>
  Claim C2: when a page response has status 200 and a body that does not decode,
  \<open>fetchActivitiesPage\<close> returns no activities with status 200, and the caller must end the
  run with a fatal error. The first half holds. The second does not: \<open>main\<close> cannot tell
  this result from an empty last page. In the run below page 2 is unreadable; \<open>main\<close>
  logs it as a page of 0 activities, leaves the loop and reports the 200 activities of
  page 1 as the whole collection, ending normally.
\<close>

theorem unparsable_page_ends_run:
  "fetchActivitiesPage ex_lib (runes ''A1'') 2
     \<lparr>script = [Inr (reply 200 ''<html>'')], trace = []\<rparr> =
     Some (([], 200, \<lparr>Usage = [], Limit = []\<rparr>),
       \<lparr>script = [],
        trace = [Do (GetActivities 200 2 (runes ''A1'')),
                 Log (LogUnmarshalActivities (LibError ''invalid character''))]\<rparr>) \<and>
   main ex_lib ex_cfg
     \<lparr>script = [Inr (reply 200 ''[]''), Inr (reply 200 ''{athlete}''),
                Inr (reply 200 ''[200 activities]''), Inr (reply 200 ''<html>'')],
      trace = []\<rparr> =
     Some (Inr \<lparr>r_all = replicate 200 walk, r_deskCount = 0, r_totalMeters = 0,
                r_miles = 0, r_refreshToken = runes ''R1''\<rparr>,
       \<lparr>script = [],
        trace = [Do (GetActivitiesProbe (runes ''A1'')), Do (GetAthlete (runes ''A1'')),
                 Log LogAuthenticated, Do (GetActivities 200 1 (runes ''A1'')),
                 Log (LogPage 1 200 \<lparr>Usage = [], Limit = []\<rparr>), Log (LogPageRetrieved 1 200),
                 Do (GetActivities 200 2 (runes ''A1'')),
                 Log (LogUnmarshalActivities (LibError ''invalid character'')),
                 Log (LogPage 2 200 \<lparr>Usage = [], Limit = []\<rparr>), Log (LogPageRetrieved 2 0),
                 Log (LogTotalFetched 200), Log (LogDeskCount 0),
                 Log (LogTotalDistance 0)]\<rparr>)"
  by (simp add: run_defs ex_defs aggregate_replicate_walk)

subsection \<open>Claim C3\<close>

text \<open>
  Claim C3 says that whenever a page fetch returns 401 the driver refreshes once and
  retries the page once. The retry depends on the refresh: when the refresh fails, the
  run ends there, and the page is not asked for again although an answer was waiting.
\<close>

theorem reauth_refresh_fails_counterexample:
  "mainLoop ex_lib ex_cfg ex_vars
     \<lparr>script = [Inr (reply 401 ''unauthorized''), Inr (reply 400 ''invalid refresh token''),
                Inr (reply 200 ''[80 activities]'')],
      trace = []\<rparr> =
   Some (Inl (LogRefreshAfter401Failed (RefreshFailed 400 ''invalid refresh token'')),
     \<lparr>script = [Inr (reply 200 ''[80 activities]'')],
      trace = [Do (GetActivities 200 1 (runes ''A1'')),
               Log (LogUnauthorized [] ''unauthorized''),
               Log (LogPage 1 401 \<lparr>Usage = [], Limit = []\<rparr>),
               Log (LogUnauthorizedOnPage 1),
               Do (refreshRequest ex_cfg),
               Log (LogRefreshAfter401Failed
                      (RefreshFailed 400 ''invalid refresh token''))]\<rparr>)"
  by (simp add: run_defs ex_defs)

text \<open>
  Claim C3 as amended. When a page fetch returns 401, \<open>refreshAccessToken\<close> is called
  once. If it fails, the run is FAILED and the page is not retried. If it succeeds,
  the same page index is fetched once more, with the new access token: the requests
  sent since the loop body began are the attempts of the first fetch, the one refresh
  grant and the attempts of the retry, nothing else. If the retry returns a status
  other than 200 the run is FAILED, with no further request; if it returns 200 the
  activities of the page are appended once, and the loop ends or goes on to the next
  page index as after any page.
\<close>

theorem reauth_once:
  assumes "fetchActivitiesPage lib (m_accessToken v) (m_page v) w =
             Some ((acts, StatusUnauthorized, rl), w1)"
    and "w2 = logf (LogUnauthorizedOnPage (m_page v))
                (logf (LogPage (m_page v) StatusUnauthorized rl) w1)"
  shows
    "(refreshAccessToken lib cfg w2 = Some (Inl rerr, w3) \<longrightarrow>
        mainLoop lib cfg v w =
          Some (Inl (LogRefreshAfter401Failed rerr), logf (LogRefreshAfter401Failed rerr) w3)) \<and>
     (refreshAccessToken lib cfg w2 = Some (Inr (at', rt'), w3) \<and>
      fetchActivitiesPage lib at' (m_page v) w3 = Some ((acts', status', rl'), w4) \<and>
      w5 = logf (LogRetryPage (m_page v) status' rl') w4 \<longrightarrow>
        (\<exists>k m. 1 \<le> k \<and> k \<le> 3 \<and> 1 \<le> m \<and> m \<le> 3 \<and>
           requests (trace w5) =
             requests (trace w) @
               replicate k (GetActivities perPage (m_page v) (m_accessToken v)) @
               refreshRequest cfg #
               replicate m (GetActivities perPage (m_page v) at')) \<and>
        (status' \<noteq> StatusOK \<longrightarrow>
           mainLoop lib cfg v w =
             Some (Inl (LogAfterRefreshFailed status'),
                   logf (LogAfterRefreshFailed status') w5)) \<and>
        (status' = StatusOK \<and> int (length acts') < perPage \<longrightarrow>
           mainLoop lib cfg v w =
             Some (Inr (v\<lparr>m_accessToken := at', m_refreshToken := rt',
                           m_all := m_all v @ acts'\<rparr>),
                   logf (LogPageRetrieved (m_page v) (length acts')) w5)) \<and>
        (status' = StatusOK \<and> \<not> int (length acts') < perPage \<longrightarrow>
           mainLoop lib cfg v w =
             mainLoop lib cfg
               (v\<lparr>m_accessToken := at', m_refreshToken := rt',
                   m_all := m_all v @ acts', m_page := m_page v + 1\<rparr>)
               (logf (LogPageRetrieved (m_page v) (length acts')) w5)))"
proof (intro conjI impI)
  assume "refreshAccessToken lib cfg w2 = Some (Inl rerr, w3)"
  then show "mainLoop lib cfg v w =
      Some (Inl (LogRefreshAfter401Failed rerr), logf (LogRefreshAfter401Failed rerr) w3)"
    using assms
    by (simp add: mainLoop.simps [of lib cfg v w] mainIteration_def Let_def fatalf_def)
next
  assume h: "refreshAccessToken lib cfg w2 = Some (Inr (at', rt'), w3) \<and>
      fetchActivitiesPage lib at' (m_page v) w3 = Some ((acts', status', rl'), w4) \<and>
      w5 = logf (LogRetryPage (m_page v) status' rl') w4"
  from fetchActivitiesPage_requests [OF assms(1)] obtain k where
    k: "1 \<le> k" "k \<le> 3" "requests (trace w1) =
      requests (trace w) @ replicate k (GetActivities perPage (m_page v) (m_accessToken v))"
    by blast
  from h have "requests (trace w3) = requests (trace w2) @ [refreshRequest cfg]"
    by (intro refreshAccessToken_ok_requests) blast
  then have r3: "requests (trace w3) = requests (trace w1) @ [refreshRequest cfg]"
    using assms(2) by simp
  from h fetchActivitiesPage_requests [of lib at' "m_page v" w3 _ w4] obtain m where
    m: "1 \<le> m" "m \<le> 3" "requests (trace w4) =
      requests (trace w3) @ replicate m (GetActivities perPage (m_page v) at')"
    by blast
  have "requests (trace w5) =
      requests (trace w) @
        replicate k (GetActivities perPage (m_page v) (m_accessToken v)) @
        refreshRequest cfg # replicate m (GetActivities perPage (m_page v) at')"
    using h k(3) r3 m(3) by simp
  with k(1,2) m(1,2)
  show "\<exists>k m. 1 \<le> k \<and> k \<le> 3 \<and> 1 \<le> m \<and> m \<le> 3 \<and>
           requests (trace w5) =
             requests (trace w) @
               replicate k (GetActivities perPage (m_page v) (m_accessToken v)) @
               refreshRequest cfg #
               replicate m (GetActivities perPage (m_page v) at')"
    by blast
next
  assume "refreshAccessToken lib cfg w2 = Some (Inr (at', rt'), w3) \<and>
      fetchActivitiesPage lib at' (m_page v) w3 = Some ((acts', status', rl'), w4) \<and>
      w5 = logf (LogRetryPage (m_page v) status' rl') w4"
    and "status' \<noteq> StatusOK"
  then show "mainLoop lib cfg v w =
      Some (Inl (LogAfterRefreshFailed status'), logf (LogAfterRefreshFailed status') w5)"
    using assms
    by (simp add: mainLoop.simps [of lib cfg v w] mainIteration_def Let_def fatalf_def)
next
  assume "refreshAccessToken lib cfg w2 = Some (Inr (at', rt'), w3) \<and>
      fetchActivitiesPage lib at' (m_page v) w3 = Some ((acts', status', rl'), w4) \<and>
      w5 = logf (LogRetryPage (m_page v) status' rl') w4"
    and "status' = StatusOK \<and> int (length acts') < perPage"
  then show "mainLoop lib cfg v w =
      Some (Inr (v\<lparr>m_accessToken := at', m_refreshToken := rt', m_all := m_all v @ acts'\<rparr>),
            logf (LogPageRetrieved (m_page v) (length acts')) w5)"
    using assms
    by (simp add: mainLoop.simps [of lib cfg v w] mainIteration_def Let_def appendPage_def)
next
  assume "refreshAccessToken lib cfg w2 = Some (Inr (at', rt'), w3) \<and>
      fetchActivitiesPage lib at' (m_page v) w3 = Some ((acts', status', rl'), w4) \<and>
      w5 = logf (LogRetryPage (m_page v) status' rl') w4"
    and "status' = StatusOK \<and> \<not> int (length acts') < perPage"
  then show "mainLoop lib cfg v w =
      mainLoop lib cfg
        (v\<lparr>m_accessToken := at', m_refreshToken := rt',
            m_all := m_all v @ acts', m_page := m_page v + 1\<rparr>)
        (logf (LogPageRetrieved (m_page v) (length acts')) w5)"
    using assms
    by (simp add: mainLoop.simps [of lib cfg v w] mainIteration_def Let_def appendPage_def)
qed

theorem reauth_once_witness:
  "mainLoop ex_lib ex_cfg ex_vars ex_world_80 =
     Some (Inr \<lparr>m_accessToken = runes ''A2'', m_refreshToken = runes ''R2'',
                m_all = replicate 80 walk, m_page = 1\<rparr>,
       \<lparr>script = [],
        trace = [Do (GetActivities 200 1 (runes ''A1'')),
                 Log (LogUnauthorized [] ''unauthorized''),
                 Log (LogPage 1 401 \<lparr>Usage = [], Limit = []\<rparr>),
                 Log (LogUnauthorizedOnPage 1),
                 Do (refreshRequest ex_cfg),
                 Log (LogTokenRefreshed 21600),
                 Do (GetActivities 200 1 (runes ''A2'')),
                 Log (LogRetryPage 1 200 \<lparr>Usage = [], Limit = []\<rparr>),
                 Log (LogPageRetrieved 1 80)]\<rparr>) \<and>
   mainLoop ex_lib ex_cfg ex_vars ex_world_401_401 =
     Some (Inl (LogAfterRefreshFailed 401),
       \<lparr>script = [Inr (reply 200 ''[80 activities]'')],
        trace = [Do (GetActivities 200 1 (runes ''A1'')),
                 Log (LogUnauthorized [] ''unauthorized''),
                 Log (LogPage 1 401 \<lparr>Usage = [], Limit = []\<rparr>),
                 Log (LogUnauthorizedOnPage 1),
                 Do (refreshRequest ex_cfg),
                 Log (LogTokenRefreshed 21600),
                 Do (GetActivities 200 1 (runes ''A2'')),
                 Log (LogUnauthorized [] ''unauthorized''),
                 Log (LogRetryPage 1 401 \<lparr>Usage = [], Limit = []\<rparr>),
                 Log (LogAfterRefreshFailed 401)]\<rparr>)"
proof -
  let ?rl = "\<lparr>Usage = [], Limit = []\<rparr>"
  let ?t1 = "[Do (GetActivities 200 1 (runes ''A1'')), Log (LogUnauthorized [] ''unauthorized'')]"
  let ?t3 = "?t1 @ [Log (LogPage 1 401 ?rl), Log (LogUnauthorizedOnPage 1),
     Do (refreshRequest ex_cfg), Log (LogTokenRefreshed 21600)]"
  let ?w1 = "\<lparr>script = [Inr (reply 200 ''{access_token:A2,refresh_token:R2}''),
      Inr (reply 200 ''[80 activities]'')], trace = ?t1\<rparr> :: rat world"
  let ?w3 = "\<lparr>script = [Inr (reply 200 ''[80 activities]'')], trace = ?t3\<rparr> :: rat world"
  let ?w4 = "\<lparr>script = [], trace = ?t3 @ [Do (GetActivities 200 1 (runes ''A2''))]\<rparr> :: rat world"
  let ?u1 = "\<lparr>script = [Inr (reply 200 ''{access_token:A2,refresh_token:R2}''),
      Inr (reply 401 ''unauthorized''), Inr (reply 200 ''[80 activities]'')],
      trace = ?t1\<rparr> :: rat world"
  let ?u3 = "\<lparr>script = [Inr (reply 401 ''unauthorized''), Inr (reply 200 ''[80 activities]'')],
      trace = ?t3\<rparr> :: rat world"
  let ?u4 = "\<lparr>script = [Inr (reply 200 ''[80 activities]'')],
      trace = ?t3 @ [Do (GetActivities 200 1 (runes ''A2'')),
        Log (LogUnauthorized [] ''unauthorized'')]\<rparr> :: rat world"
  have a: "fetchActivitiesPage ex_lib (m_accessToken ex_vars) (m_page ex_vars) ex_world_80 =
      Some (([], StatusUnauthorized, ?rl), ?w1)"
    by (simp add: run_defs ex_defs ex_world_80_def)
  have b: "fetchActivitiesPage ex_lib (m_accessToken ex_vars) (m_page ex_vars) ex_world_401_401 =
      Some (([], StatusUnauthorized, ?rl), ?u1)"
    by (simp add: run_defs ex_defs ex_world_401_401_def)
  show ?thesis
    using
      reauth_once [OF a refl, of ex_cfg _ ?w3 "runes ''A2''" "runes ''R2''"
        "replicate 80 walk" 200 ?rl ?w4 "logf (LogRetryPage 1 200 ?rl) ?w4"]
      reauth_once [OF b refl, of ex_cfg _ ?u3 "runes ''A2''" "runes ''R2''"
        "[]" 401 ?rl ?u4 "logf (LogRetryPage 1 401 ?rl) ?u4"]
    by (simp add: run_defs ex_defs)
qed

subsection \<open>Claim C7\<close>

text \<open>
  Claim C7: once a refresh has returned a new refresh token, every later refresh uses
  it, and the operator is told. \<open>main\<close> keeps the new token in its variable
  \<open>refreshToken\<close>, but hands \<open>refreshAccessToken\<close> the configuration \<open>cfg\<close> every time. In
  the run below there is no cached access token; the first refresh turns \<open>R1\<close> into
  \<open>R2\<close>; page 1 is refused with 401; the second refresh grant carries \<open>R1\<close> again, and is
  refused. The run ends there, and the notice that would tell the operator of the new
  token, logged only at the end of a complete run, is never logged.
\<close>

theorem rotated_token_not_used:
  "main ex_lib (ex_cfg\<lparr>StravaAccessToken := []\<rparr>)
     \<lparr>script = [Inr (reply 200 ''{access_token:A2,refresh_token:R2}''),
                Inr (reply 200 ''{athlete}''),
                Inr (reply 401 ''unauthorized''),
                Inr (reply 400 ''invalid refresh token'')],
      trace = []\<rparr> =
     Some (Inl (LogRefreshAfter401Failed (RefreshFailed 400 ''invalid refresh token'')),
       \<lparr>script = [],
        trace = [Log LogNoAccessToken,
                 Do (PostToken (runes ''12345'') (runes ''secret'') (runes ''refresh_token'')
                       (runes ''R1'')),
                 Log (LogTokenRefreshed 21600),
                 Do (GetAthlete (runes ''A2'')),
                 Log LogAuthenticated,
                 Do (GetActivities 200 1 (runes ''A2'')),
                 Log (LogUnauthorized [] ''unauthorized''),
                 Log (LogPage 1 401 \<lparr>Usage = [], Limit = []\<rparr>),
                 Log (LogUnauthorizedOnPage 1),
                 Do (PostToken (runes ''12345'') (runes ''secret'') (runes ''refresh_token'')
                       (runes ''R1'')),
                 Log (LogRefreshAfter401Failed
                        (RefreshFailed 400 ''invalid refresh token''))]\<rparr>)"
  by (simp add: run_defs ex_defs)

section \<open>Aggregator: claim C8\<close>










end
